theory Spec2Isabelle
  imports Complex_Main
begin

section \<open>Timeline scale and region layout of the timeline editor\<close>

text \<open>
  A shallow embedding of the pure computations of
  \<^verbatim>\<open>src/components/video-editor/timeline/TimelineEditor.tsx\<close>.

  Numbers. The source computes with JavaScript numbers. Millisecond quantities
  (region bounds, spans, the visible range, marker times) are modelled as \<^typ>\<open>int\<close>,
  the duration in seconds and every quotient as \<^typ>\<open>real\<close>, and every operation is
  the exact one: the rounding of IEEE doubles and the value NaN are outside the model.
\<close>

subsection \<open>Numeric primitives\<close>

text \<open>\<^verbatim>\<open>Math.round\<close>: the nearest integer, a tie going up.\<close>

definition Math_round :: "real \<Rightarrow> int" where
  "Math_round x = \<lfloor>x + 1 / 2\<rfloor>"

definition Math_floor :: "real \<Rightarrow> int" where
  "Math_floor x = \<lfloor>x\<rfloor>"

definition Math_ceil :: "real \<Rightarrow> int" where
  "Math_ceil x = \<lceil>x\<rceil>"

text \<open>
  The operator \<^verbatim>\<open>%\<close>: the remainder of the division truncated towards zero, so it
  has the sign of the dividend. The divisors in the source are the constants 3600 and 60.
\<close>

definition Math_trunc :: "real \<Rightarrow> int" where
  "Math_trunc x = (if x < 0 then \<lceil>x\<rceil> else \<lfloor>x\<rfloor>)"

definition js_rem :: "real \<Rightarrow> real \<Rightarrow> real" where
  "js_rem x y = x - y * of_int (Math_trunc (x / y))"

text \<open>
  The operator \<^verbatim>\<open>/\<close> on milliseconds. A zero divisor gives no finite number
  (\<^verbatim>\<open>Infinity\<close> or \<^verbatim>\<open>NaN\<close>): that is \<open>None\<close>.
\<close>

definition js_divide :: "int \<Rightarrow> int \<Rightarrow> real option" where
  "js_divide a b = (if b = 0 then None else Some (of_int a / of_int b))"

subsection \<open>Strings\<close>

definition digitChar :: "nat \<Rightarrow> char" where
  "digitChar d = ''0123456789'' ! d"

text \<open>The decimal digits of a natural number, without leading zeros.\<close>

fun natToString :: "nat \<Rightarrow> string" where
  "natToString n =
     (if n < 10 then [digitChar n] else natToString (n div 10) @ [digitChar (n mod 10)])"

declare natToString.simps [simp del]

text \<open>\<^verbatim>\<open>toString\<close> of an integer-valued number, also what a template literal inserts.\<close>

definition Number_toString :: "int \<Rightarrow> string" where
  "Number_toString n =
     (if n < 0 then CHR ''-'' # natToString (nat (- n)) else natToString (nat n))"

definition padStart :: "nat \<Rightarrow> char \<Rightarrow> string \<Rightarrow> string" where
  "padStart targetLength c s = replicate (targetLength - length s) c @ s"

text \<open>
  \<^verbatim>\<open>toFixed(f)\<close> as ECMAScript defines it for numbers below \<open>10\<^sup>2\<^sup>1\<close> in magnitude:
  the sign, then the integer \<open>n\<close> nearest to \<open>x * 10\<^sup>f\<close> (the larger one on a tie),
  written with at least \<open>f + 1\<close> digits and a point before the last \<open>f\<close>.
\<close>

definition toFixed :: "real \<Rightarrow> nat \<Rightarrow> string" where
  "toFixed x f =
     (let s = (if x < 0 then ''-'' else []);
          n = nat \<lfloor>\<bar>x\<bar> * 10 ^ f + 1 / 2\<rfloor>;
          m = natToString n
      in if f = 0 then s @ m
         else (let padded = (if length m \<le> f
                             then replicate (f + 1 - length m) CHR ''0'' @ m else m);
                   k = length padded
               in s @ take (k - f) padded @ ''.'' @ drop (k - f) padded))"

text \<open>\<^verbatim>\<open>split(c)\<close> for a one-character separator: the pieces between its occurrences.\<close>

fun splitOn :: "char \<Rightarrow> string \<Rightarrow> string list" where
  "splitOn c [] = [[]]"
| "splitOn c (x # xs) =
     (if x = c then [] # splitOn c xs
      else (case splitOn c xs of
              piece # pieces \<Rightarrow> (x # piece) # pieces
            | [] \<Rightarrow> [[x]]))"

subsection \<open>Data\<close>

text \<open>
  \<^verbatim>\<open>Span\<close> and \<^verbatim>\<open>Range\<close> of the timeline library: \<^verbatim>\<open>{start, end}\<close> in milliseconds
  (\<^verbatim>\<open>end\<close> is written \<open>end'\<close>).
\<close>

record Span =
  start :: int
  end' :: int

type_synonym Range = Span

text \<open>
  Modelled from the spec: the declaration of \<^verbatim>\<open>ZoomRegion\<close> lives in \<^verbatim>\<open>../types\<close>,
  which is not part of the sources at hand; the spec gives it as
  \<^verbatim>\<open>{id, startMs, endMs}\<close>, and these are the only fields the code reads.
\<close>

record ZoomRegion =
  region_id :: string
  startMs :: int
  endMs :: int

record Marker =
  time :: int
  label :: string

record ScaleCandidate =
  intervalSeconds :: real
  gridSeconds :: real

record TimelineScaleConfig =
  intervalMs :: int
  gridMs :: int
  minItemDurationMs :: int
  defaultItemDurationMs :: int
  minVisibleRangeMs :: int

subsection \<open>Scale selection\<close>

definition TARGET_MARKER_COUNT :: real where
  "TARGET_MARKER_COUNT = 12"

definition SCALE_CANDIDATES :: "ScaleCandidate list" where
  "SCALE_CANDIDATES =
    [\<lparr>intervalSeconds = 0.25, gridSeconds = 0.05\<rparr>,
     \<lparr>intervalSeconds = 0.5, gridSeconds = 0.1\<rparr>,
     \<lparr>intervalSeconds = 1, gridSeconds = 0.25\<rparr>,
     \<lparr>intervalSeconds = 2, gridSeconds = 0.5\<rparr>,
     \<lparr>intervalSeconds = 5, gridSeconds = 1\<rparr>,
     \<lparr>intervalSeconds = 10, gridSeconds = 2\<rparr>,
     \<lparr>intervalSeconds = 15, gridSeconds = 3\<rparr>,
     \<lparr>intervalSeconds = 30, gridSeconds = 5\<rparr>,
     \<lparr>intervalSeconds = 60, gridSeconds = 10\<rparr>,
     \<lparr>intervalSeconds = 120, gridSeconds = 20\<rparr>,
     \<lparr>intervalSeconds = 300, gridSeconds = 30\<rparr>,
     \<lparr>intervalSeconds = 600, gridSeconds = 60\<rparr>,
     \<lparr>intervalSeconds = 900, gridSeconds = 120\<rparr>,
     \<lparr>intervalSeconds = 1800, gridSeconds = 180\<rparr>,
     \<lparr>intervalSeconds = 3600, gridSeconds = 300\<rparr>]"

text \<open>The predicate handed to \<^verbatim>\<open>SCALE_CANDIDATES.find\<close>.\<close>

definition candidateFits :: "real \<Rightarrow> ScaleCandidate \<Rightarrow> bool" where
  "candidateFits durationSeconds candidate =
     (if durationSeconds \<le> 0 then True
      else (let markers = durationSeconds / intervalSeconds candidate
            in markers \<le> TARGET_MARKER_COUNT))"

text \<open>
  \<^verbatim>\<open>find(...) ?? SCALE_CANDIDATES[SCALE_CANDIDATES.length - 1]\<close>, for any table:
  the first entry that satisfies the predicate, the last entry when none does.
\<close>

definition findOrLast :: "('a \<Rightarrow> bool) \<Rightarrow> 'a list \<Rightarrow> 'a" where
  "findOrLast P xs = (case List.find P xs of Some x \<Rightarrow> x | None \<Rightarrow> last xs)"

definition selectedCandidate :: "real \<Rightarrow> ScaleCandidate" where
  "selectedCandidate durationSeconds =
     findOrLast (candidateFits durationSeconds) SCALE_CANDIDATES"

definition calculateTimelineScale :: "real \<Rightarrow> TimelineScaleConfig" where
  "calculateTimelineScale durationSeconds =
     (let totalMs = max 0 (Math_round (durationSeconds * 1000));
          candidate = selectedCandidate durationSeconds;
          ivMs = Math_round (intervalSeconds candidate * 1000);
          gMs = Math_round (gridSeconds candidate * 1000);
          minItemMs = 1;
          defaultItemMs = min (max minItemMs (ivMs * 2))
                              (if totalMs > 0 then totalMs else ivMs * 2);
          minVisibleMs =
            (if totalMs > 0
             then min (max (max (ivMs * 3) (minItemMs * 6)) 1000) totalMs
             else max (max (ivMs * 3) (minItemMs * 6)) 1000)
      in \<lparr>intervalMs = ivMs, gridMs = gMs, minItemDurationMs = minItemMs,
          defaultItemDurationMs = defaultItemMs, minVisibleRangeMs = minVisibleMs\<rparr>)"

subsection \<open>Values derived in \<^verbatim>\<open>TimelineEditor\<close>\<close>

definition totalMs_of :: "real \<Rightarrow> int" where
  "totalMs_of videoDuration = max 0 (Math_round (videoDuration * 1000))"

definition safeMinDurationMs_of :: "real \<Rightarrow> int" where
  "safeMinDurationMs_of videoDuration =
     (let totalMs = totalMs_of videoDuration;
          minItemMs = minItemDurationMs (calculateTimelineScale videoDuration)
      in if totalMs > 0 then min minItemMs totalMs else minItemMs)"

subsection \<open>Region normalization\<close>

text \<open>
  The body of the \<^verbatim>\<open>forEach\<close> of the normalization effect: the pair
  \<^verbatim>\<open>{normalizedStart, normalizedEnd}\<close> computed for one region.
\<close>

definition normalizeRegion :: "int \<Rightarrow> int \<Rightarrow> ZoomRegion \<Rightarrow> Span" where
  "normalizeRegion totalMs safeMinDurationMs region =
     (let clampedStart = max 0 (min (startMs region) totalMs);
          minEnd = clampedStart + safeMinDurationMs;
          clampedEnd = min totalMs (max minEnd (endMs region));
          normalizedStart = max 0 (min clampedStart (totalMs - safeMinDurationMs));
          normalizedEnd = max minEnd (min clampedEnd totalMs)
      in \<lparr>start = normalizedStart, end' = normalizedEnd\<rparr>)"

text \<open>
  The effect itself: nothing when \<^verbatim>\<open>totalMs === 0 || safeMinDurationMs <= 0\<close>;
  otherwise the calls \<^verbatim>\<open>onZoomSpanChange(region.id, span)\<close> it makes, in order, one
  for each region whose normalized pair is not the pair it has.
\<close>

definition normalizationEffect :: "int \<Rightarrow> int \<Rightarrow> ZoomRegion list \<Rightarrow> (string \<times> Span) list" where
  "normalizationEffect totalMs safeMinDurationMs zoomRegions =
     (if totalMs = 0 \<or> safeMinDurationMs \<le> 0 then []
      else concat (map (\<lambda>region.
             (let newSpan = normalizeRegion totalMs safeMinDurationMs region
              in if start newSpan = startMs region \<and> end' newSpan = endMs region then []
                 else [(region_id region, newSpan)]))
           zoomRegions))"

text \<open>The region as the store holds it once a reported span has been applied to it.\<close>

definition withSpan :: "ZoomRegion \<Rightarrow> Span \<Rightarrow> ZoomRegion" where
  "withSpan region newSpan = region\<lparr>startMs := start newSpan, endMs := end' newSpan\<rparr>"

subsection \<open>Overlap and snap-gap detection\<close>

text \<open>The last line of the callback of \<^verbatim>\<open>hasOverlap\<close>: the two intervals truly overlap.\<close>

definition spansIntersect :: "Span \<Rightarrow> ZoomRegion \<Rightarrow> bool" where
  "spansIntersect newSpan region =
     (\<not> (end' newSpan \<le> startMs region \<or> start newSpan \<ge> endMs region))"

text \<open>The callback of \<^verbatim>\<open>zoomRegions.some\<close>; \<^verbatim>\<open>excludeId\<close> is optional.\<close>

definition regionConflicts :: "Span \<Rightarrow> string option \<Rightarrow> ZoomRegion \<Rightarrow> bool" where
  "regionConflicts newSpan excludeId region =
     (if Some (region_id region) = excludeId then False
      else (let gapBefore = start newSpan - endMs region;
                gapAfter = startMs region - end' newSpan
            in if gapBefore > 0 \<and> gapBefore \<le> 2 then True
               else if gapAfter > 0 \<and> gapAfter \<le> 2 then True
               else spansIntersect newSpan region))"

definition hasOverlap :: "ZoomRegion list \<Rightarrow> Span \<Rightarrow> string option \<Rightarrow> bool" where
  "hasOverlap zoomRegions newSpan excludeId =
     list_ex (regionConflicts newSpan excludeId) zoomRegions"

subsection \<open>Placement of a new region\<close>

text \<open>
  The \<^verbatim>\<open>for ... of sorted\<close> loop of \<^verbatim>\<open>handleAddZoom\<close>, as a recursion over the
  sorted regions with the running \<^verbatim>\<open>startPos\<close>; \<^verbatim>\<open>break\<close> returns it.
\<close>

fun placementScan :: "int \<Rightarrow> int \<Rightarrow> ZoomRegion list \<Rightarrow> int" where
  "placementScan defaultDuration startPos [] = startPos"
| "placementScan defaultDuration startPos (region # rest) =
     (if startPos + defaultDuration \<le> startMs region then startPos
      else placementScan defaultDuration (max startPos (endMs region)) rest)"

text \<open>
  What a click on "Add Zoom" does: nothing, the toast "No space available", or the
  call \<^verbatim>\<open>onZoomAdded(span)\<close>.
\<close>

datatype AddZoomOutcome = Ignored | NoSpaceAvailable | ZoomAdded Span

text \<open>
  \<^verbatim>\<open>[...zoomRegions].sort((a, b) => a.startMs - b.startMs)\<close> is a stable sort by
  \<^verbatim>\<open>startMs\<close>, as \<^const>\<open>sort_key\<close> is.
\<close>

definition handleAddZoom :: "real \<Rightarrow> ZoomRegion list \<Rightarrow> AddZoomOutcome" where
  "handleAddZoom videoDuration zoomRegions =
     (let totalMs = totalMs_of videoDuration;
          safeMinDurationMs = safeMinDurationMs_of videoDuration
      in if videoDuration = 0 \<or> totalMs = 0 then Ignored
         else (let defaultDuration = min (max 3000 safeMinDurationMs) totalMs
               in if defaultDuration \<le> 0 then Ignored
                  else (let sorted = sort_key startMs zoomRegions;
                            startPos = placementScan defaultDuration 0 sorted
                        in if startPos + defaultDuration > totalMs then NoSpaceAvailable
                           else ZoomAdded \<lparr>start = startPos,
                                           end' = startPos + defaultDuration\<rparr>)))"

subsection \<open>Time labels\<close>

text \<open>
  In the destructuring \<^verbatim>\<open>[wholeSeconds, fraction] = secondsWithFraction.split(".")\<close> a
  missing second piece is \<^verbatim>\<open>undefined\<close>, which the template literal prints as such.
\<close>

definition formatTimeLabel :: "int \<Rightarrow> int \<Rightarrow> string" where
  "formatTimeLabel milliseconds ivMs =
     (let totalSeconds = of_int milliseconds / 1000;
          hours = Math_floor (totalSeconds / 3600);
          minutes = Math_floor (js_rem totalSeconds 3600 / 60);
          seconds = js_rem totalSeconds 60;
          fractionalDigits = (if ivMs < 250 then 2 else if ivMs < 1000 then 1 else (0::nat))
      in if hours > 0
         then (let minutesString = padStart 2 CHR ''0'' (Number_toString minutes);
                   secondsString = padStart 2 CHR ''0'' (Number_toString (Math_floor seconds))
               in Number_toString hours @ '':'' @ minutesString @ '':'' @ secondsString)
         else if fractionalDigits > 0
         then (let secondsWithFraction = toFixed seconds fractionalDigits;
                   pieces = splitOn CHR ''.'' secondsWithFraction;
                   wholeSeconds = (case pieces of w # _ \<Rightarrow> w | [] \<Rightarrow> ''undefined'');
                   fraction = (case pieces of _ # f # _ \<Rightarrow> f | _ \<Rightarrow> ''undefined'')
               in Number_toString minutes @ '':'' @ padStart 2 CHR ''0'' wholeSeconds
                    @ ''.'' @ fraction)
         else Number_toString minutes @ '':''
                @ padStart 2 CHR ''0'' (Number_toString (Math_floor seconds)))"

text \<open>
  The order in which labels are read: a shorter label comes first, labels of one
  length compare character by character.
\<close>

fun lexLess :: "string \<Rightarrow> string \<Rightarrow> bool" where
  "lexLess [] ys = (ys \<noteq> [])"
| "lexLess (x # xs) [] = False"
| "lexLess (x # xs) (y # ys) =
     ((of_char x :: nat) < of_char y \<or> (x = y \<and> lexLess xs ys))"


subsection \<open>Axis markers\<close>

text \<open>\<^verbatim>\<open>Set.prototype.add\<close>, the set kept as the list of its elements in insertion order.\<close>

definition Set_add :: "'a \<Rightarrow> 'a list \<Rightarrow> 'a list" where
  "Set_add x xs = (if x \<in> set xs then xs else xs @ [x])"

text \<open>
  The \<^verbatim>\<open>for (let time = firstMarker; time <= maxTime; time += intervalMs)\<close> loop, with
  the set built so far. Nothing in the loop itself makes it end, so it is a partial
  function: \<open>None\<close> is a run that never leaves the loop.
\<close>

partial_function (option) markerLoop ::
  "int \<Rightarrow> int \<Rightarrow> int \<Rightarrow> int \<Rightarrow> int \<Rightarrow> int list \<Rightarrow> int list option" where
  "markerLoop ivMs maxTime visibleStart visibleEnd t markerTimes =
     (if t \<le> maxTime
      then markerLoop ivMs maxTime visibleStart visibleEnd (t + ivMs)
             (if t \<ge> visibleStart \<and> t \<le> visibleEnd
              then Set_add (Math_round (of_int t)) markerTimes else markerTimes)
      else Some markerTimes)"

declare markerLoop.simps [code]

text \<open>
  The \<^verbatim>\<open>markers\<close> memo of \<^verbatim>\<open>TimelineAxis\<close>; \<open>visible\<close> is the \<^verbatim>\<open>range\<close> of the
  timeline context. The result is \<open>None\<close> when the quotient is not finite or the loop
  does not end.
\<close>

definition markers :: "int \<Rightarrow> Range \<Rightarrow> int \<Rightarrow> Marker list option" where
  "markers ivMs visible videoDurationMs =
     (if ivMs \<le> 0 then Some []
      else (let maxTime = (if videoDurationMs > 0 then videoDurationMs else end' visible);
                visibleStart = max 0 (min (start visible) maxTime);
                visibleEnd = min (end' visible) maxTime
            in case js_divide visibleStart ivMs of
                 None \<Rightarrow> None
               | Some q \<Rightarrow>
                   (let firstMarker = Math_ceil q * ivMs
                    in case markerLoop ivMs maxTime visibleStart visibleEnd firstMarker [] of
                         None \<Rightarrow> None
                       | Some stepped \<Rightarrow>
                           (let withStart =
                                  (if visibleStart \<le> maxTime
                                   then Set_add (Math_round (of_int visibleStart)) stepped
                                   else stepped);
                                markerTimes =
                                  (if videoDurationMs > 0
                                   then Set_add (Math_round (of_int videoDurationMs)) withStart
                                   else withStart);
                                sorted = sort (filter (\<lambda>t. t \<le> maxTime) markerTimes)
                            in Some (map (\<lambda>t. \<lparr>time = t, label = formatTimeLabel t ivMs\<rparr>)
                                       sorted)))))"

section \<open>Properties\<close>

subsection \<open>Region normalization\<close>

lemma normalizeRegion_start:
  "start (normalizeRegion totalMs m region) =
     max 0 (min (max 0 (min (startMs region) totalMs)) (totalMs - m))"
  by (simp add: normalizeRegion_def Let_def)

lemma normalizeRegion_end:
  "end' (normalizeRegion totalMs m region) =
     max (max 0 (min (startMs region) totalMs) + m)
         (min (min totalMs (max (max 0 (min (startMs region) totalMs) + m) (endMs region)))
              totalMs)"
  by (simp add: normalizeRegion_def Let_def)

lemma withSpan_simps:
  "startMs (withSpan region s) = start s"
  "endMs (withSpan region s) = end' s"
  "withSpan (withSpan region s) t = withSpan region t"
  by (simp_all add: withSpan_def)

lemma derived_values_3s: "totalMs_of 3 = 3000" "safeMinDurationMs_of 3 = 1"
  by (simp_all add: totalMs_of_def safeMinDurationMs_of_def Math_round_def
        calculateTimelineScale_def Let_def)

lemma derived_values_10s: "totalMs_of 10 = 10000" "safeMinDurationMs_of 10 = 1"
  by (simp_all add: totalMs_of_def safeMinDurationMs_of_def Math_round_def
        calculateTimelineScale_def Let_def)

text \<open>
  C1. The claim: with the minimum duration 1, the end the normalizer reports
  never exceeds \<open>totalMs\<close>, and for a 3000 ms video the region \<open>{5000, 8000}\<close> is
  reported as \<open>{2999, 3000}\<close>. The code, run on that very input (a 3 s video, so
  \<open>totalMs = 3000\<close> and \<open>safeMinDurationMs = 1\<close>), reports \<open>{2999, 3001}\<close>: \<open>minEnd\<close>
  is taken from the start before it is pulled back to \<open>totalMs - safeMinDurationMs\<close>,
  and the final \<open>max\<close> with it undoes the bound by \<open>totalMs\<close>.
\<close>

theorem normalizationEffect_end_past_duration:
  "totalMs_of 3 = 3000 \<and> safeMinDurationMs_of 3 = 1
   \<and> normalizationEffect (totalMs_of 3) (safeMinDurationMs_of 3)
        [\<lparr>region_id = ''zoom-1'', startMs = 5000, endMs = 8000\<rparr>]
       = [(''zoom-1'', \<lparr>start = 2999, end' = 3001\<rparr>)]"
  by (simp add: derived_values_3s normalizationEffect_def normalizeRegion_def Let_def)

text \<open>
  C2. The claim: normalizing twice gives what normalizing once gives. On the input of
  C1 the code gives \<open>{2999, 3001}\<close> the first time and, applied to the region with that
  span, \<open>{2999, 3000}\<close> the second time.
\<close>

theorem normalizeRegion_twice_differs:
  "normalizeRegion 3000 1 \<lparr>region_id = ''zoom-1'', startMs = 5000, endMs = 8000\<rparr>
     = \<lparr>start = 2999, end' = 3001\<rparr>
   \<and> normalizeRegion 3000 1
        (withSpan \<lparr>region_id = ''zoom-1'', startMs = 5000, endMs = 8000\<rparr>
           (normalizeRegion 3000 1 \<lparr>region_id = ''zoom-1'', startMs = 5000, endMs = 8000\<rparr>))
     = \<lparr>start = 2999, end' = 3000\<rparr>"
  by (simp add: normalizeRegion_def withSpan_def Let_def)

text \<open>
  The two failures have one cause, and it is confined to regions that start too late
  to leave room for the minimum duration: everywhere else one pass is a fixed point,
  and a second pass always is.
\<close>

lemma normalizeRegion_idem_when_room:
  assumes "0 < m" "m \<le> totalMs" "startMs region \<le> totalMs - m"
  shows "normalizeRegion totalMs m (withSpan region (normalizeRegion totalMs m region))
           = normalizeRegion totalMs m region"
  using assms by (simp add: normalizeRegion_def withSpan_def Let_def min_def max_def)

lemma normalizeRegion_end_when_room:
  assumes "0 < m" "m \<le> totalMs" "startMs region \<le> totalMs - m"
  shows "end' (normalizeRegion totalMs m region) \<le> totalMs"
  using assms unfolding normalizeRegion_end by (simp add: min_def max_def)

lemma normalizeRegion_start_room:
  assumes "m \<le> totalMs"
  shows "start (normalizeRegion totalMs m region) \<le> totalMs - m"
  using assms unfolding normalizeRegion_start by (simp add: min_def max_def)

lemma normalizeRegion_settles:
  assumes "0 < m" "m \<le> totalMs"
  shows "normalizeRegion totalMs m (withSpan region
            (normalizeRegion totalMs m (withSpan region (normalizeRegion totalMs m region))))
           = normalizeRegion totalMs m (withSpan region (normalizeRegion totalMs m region))"
proof -
  let ?r = "withSpan region (normalizeRegion totalMs m region)"
  have "startMs ?r \<le> totalMs - m"
    using normalizeRegion_start_room [OF assms(2)] by (simp add: withSpan_simps)
  from normalizeRegion_idem_when_room [OF assms this] show ?thesis
    by (simp add: withSpan_simps)
qed

text \<open>
  C9. For every region and every \<open>totalMs \<ge> 1\<close>, with the minimum duration
  \<open>min 1 totalMs\<close> the editor passes, the normalized pair is at least that long, and
  its start lies between \<open>0\<close> and \<open>totalMs\<close> minus the minimum duration.
\<close>

theorem normalizeRegion_min_length:
  assumes "1 \<le> totalMs"
  shows "end' (normalizeRegion totalMs (min 1 totalMs) region)
           - start (normalizeRegion totalMs (min 1 totalMs) region) \<ge> min 1 totalMs
       \<and> 0 \<le> start (normalizeRegion totalMs (min 1 totalMs) region)
       \<and> start (normalizeRegion totalMs (min 1 totalMs) region) \<le> totalMs - min 1 totalMs"
  using assms unfolding normalizeRegion_start normalizeRegion_end
  by (simp add: min_def max_def)

theorem normalizeRegion_min_length_witness:
  "(1::int) \<le> 3000
   \<and> end' (normalizeRegion 3000 (min 1 3000) \<lparr>region_id = ''zoom-1'', startMs = 5000, endMs = 8000\<rparr>)
       - start (normalizeRegion 3000 (min 1 3000) \<lparr>region_id = ''zoom-1'', startMs = 5000, endMs = 8000\<rparr>)
       \<ge> min 1 3000
   \<and> 0 \<le> start (normalizeRegion 3000 (min 1 3000) \<lparr>region_id = ''zoom-1'', startMs = 5000, endMs = 8000\<rparr>)
   \<and> start (normalizeRegion 3000 (min 1 3000) \<lparr>region_id = ''zoom-1'', startMs = 5000, endMs = 8000\<rparr>)
       \<le> 3000 - min 1 3000"
  using normalizeRegion_min_length [of 3000 "\<lparr>region_id = ''zoom-1'', startMs = 5000, endMs = 8000\<rparr>"]
  by simp

subsection \<open>Overlap detection and placement\<close>

text \<open>
  C7. Against the regions \<open>{0, 1000}\<close> and \<open>{1005, 2000}\<close>, with no \<open>excludeId\<close>, the
  candidate \<open>{1000, 1005}\<close> is accepted: \<open>hasOverlap\<close> is false. It touches both
  regions at a boundary only, and both gaps are 0, outside the snap interval.
\<close>

theorem hasOverlap_boundary_touch:
  "hasOverlap [\<lparr>region_id = ''zoom-1'', startMs = 0, endMs = 1000\<rparr>,
               \<lparr>region_id = ''zoom-2'', startMs = 1005, endMs = 2000\<rparr>]
              \<lparr>start = 1000, end' = 1005\<rparr> None = False"
  by (simp add: hasOverlap_def regionConflicts_def spansIntersect_def Let_def)

text \<open>
  C10. A span the placement returns can be one the detector rejects: for a 10 s video
  (\<open>totalMs = 10000\<close>) with the regions \<open>{0, 1000}\<close> and \<open>{4002, 5000}\<close>,
  \<open>handleAddZoom\<close> adds \<open>{1000, 4000}\<close>, and \<open>hasOverlap\<close> is true of that span, the
  2 ms gap to the second region being in the snap interval.
\<close>

theorem handleAddZoom_span_rejected_by_hasOverlap:
  "totalMs_of 10 = 10000
   \<and> handleAddZoom 10 [\<lparr>region_id = ''zoom-1'', startMs = 0, endMs = 1000\<rparr>,
                       \<lparr>region_id = ''zoom-2'', startMs = 4002, endMs = 5000\<rparr>]
       = ZoomAdded \<lparr>start = 1000, end' = 4000\<rparr>
   \<and> hasOverlap [\<lparr>region_id = ''zoom-1'', startMs = 0, endMs = 1000\<rparr>,
                 \<lparr>region_id = ''zoom-2'', startMs = 4002, endMs = 5000\<rparr>]
                \<lparr>start = 1000, end' = 4000\<rparr> None = True"
  by (simp add: handleAddZoom_def derived_values_10s hasOverlap_def regionConflicts_def
        spansIntersect_def Let_def)

lemma placementScan_ge: "startPos \<le> placementScan d startPos rs"
  by (induction rs arbitrary: startPos) (auto intro: order_trans [OF max.cobounded1])

text \<open>
  After the scan over regions sorted by start, each region either begins at or after
  the end of the candidate, or ends at or before its start.
\<close>

lemma placementScan_clear:
  assumes "sorted (map startMs rs)" "r \<in> set rs"
  shows "placementScan d startPos rs + d \<le> startMs r
       \<or> endMs r \<le> placementScan d startPos rs"
  using assms
proof (induction rs arbitrary: startPos)
  case Nil
  then show ?case by simp
next
  case (Cons x xs)
  show ?case
  proof (cases "startPos + d \<le> startMs x")
    case True
    have "startMs x \<le> startMs r" using Cons.prems by auto
    with True show ?thesis by simp
  next
    case False
    show ?thesis
    proof (cases "r = x")
      case True
      have "max startPos (endMs x) \<le> placementScan d (max startPos (endMs x)) xs"
        by (rule placementScan_ge)
      with False True show ?thesis by simp
    next
      case neq: False
      with Cons.prems have "sorted (map startMs xs)" "r \<in> set xs" by auto
      from Cons.IH [OF this] False show ?thesis by simp
    qed
  qed
qed

text \<open>
  C3. Whenever \<open>handleAddZoom\<close> adds a span (rather than doing nothing or reporting
  "No space available"), for any duration and any list of existing regions: the span
  truly overlaps none of the regions (touching at a boundary is no overlap), it ends at
  or before \<open>totalMs\<close>, which is positive, and it is \<open>defaultDuration\<close> long.
\<close>

theorem handleAddZoom_span_free:
  assumes "handleAddZoom videoDuration zoomRegions = ZoomAdded sp"
  shows "(\<forall>region \<in> set zoomRegions. \<not> spansIntersect sp region)
       \<and> end' sp \<le> totalMs_of videoDuration
       \<and> 0 < totalMs_of videoDuration
       \<and> end' sp = start sp + min (max 3000 (safeMinDurationMs_of videoDuration))
                                  (totalMs_of videoDuration)"
proof -
  define d where
    "d = min (max 3000 (safeMinDurationMs_of videoDuration)) (totalMs_of videoDuration)"
  define p where "p = placementScan d 0 (sort_key startMs zoomRegions)"
  have pos: "0 < totalMs_of videoDuration"
    using assms by (auto simp: handleAddZoom_def Let_def totalMs_of_def split: if_splits)
  have sp: "sp = \<lparr>start = p, end' = p + d\<rparr>" and fits: "p + d \<le> totalMs_of videoDuration"
    using assms by (auto simp: handleAddZoom_def Let_def d_def p_def split: if_splits)
  have "\<not> spansIntersect sp region" if "region \<in> set zoomRegions" for region
  proof -
    have "sorted (map startMs (sort_key startMs zoomRegions))"
      by (rule sorted_sort_key)
    moreover have "region \<in> set (sort_key startMs zoomRegions)"
      using that by simp
    ultimately have "p + d \<le> startMs region \<or> endMs region \<le> p"
      unfolding p_def by (rule placementScan_clear)
    then show ?thesis by (simp add: spansIntersect_def sp)
  qed
  with sp fits pos show ?thesis by (simp add: d_def)
qed

theorem handleAddZoom_span_free_witness:
  "handleAddZoom 10 [\<lparr>region_id = ''zoom-2'', startMs = 2001, endMs = 3000\<rparr>,
                     \<lparr>region_id = ''zoom-1'', startMs = 0, endMs = 2000\<rparr>]
     = ZoomAdded \<lparr>start = 3000, end' = 6000\<rparr>
   \<and> \<not> spansIntersect \<lparr>start = 3000, end' = 6000\<rparr>
         \<lparr>region_id = ''zoom-2'', startMs = 2001, endMs = 3000\<rparr>
   \<and> \<not> spansIntersect \<lparr>start = 3000, end' = 6000\<rparr>
         \<lparr>region_id = ''zoom-1'', startMs = 0, endMs = 2000\<rparr>
   \<and> end' \<lparr>start = 3000, end' = 6000\<rparr> \<le> totalMs_of 10"
proof -
  have run: "handleAddZoom 10 [\<lparr>region_id = ''zoom-2'', startMs = 2001, endMs = 3000\<rparr>,
                               \<lparr>region_id = ''zoom-1'', startMs = 0, endMs = 2000\<rparr>]
               = ZoomAdded \<lparr>start = 3000, end' = 6000\<rparr>"
    by (simp add: handleAddZoom_def derived_values_10s Let_def)
  from handleAddZoom_span_free [OF run] run show ?thesis by simp
qed

subsection \<open>Scale selection\<close>

text \<open>
  The selection scans a table sorted by interval with a predicate that only gets
  harder to satisfy as the duration grows, so it can only move towards coarser entries.
\<close>

lemma findOrLast_Cons:
  "findOrLast P (x # xs) = (if P x \<or> xs = [] then x else findOrLast P xs)"
  by (cases "List.find P xs") (auto simp: findOrLast_def)

lemma findOrLast_in_set: "xs \<noteq> [] \<Longrightarrow> findOrLast P xs \<in> set xs"
  by (induction xs) (auto simp: findOrLast_Cons)

lemma findOrLast_mono:
  assumes "sorted_wrt (\<lambda>a b. f a \<le> f b) xs" "xs \<noteq> []"
    and "\<And>x. x \<in> set xs \<Longrightarrow> Q x \<Longrightarrow> P x"
  shows "(f (findOrLast P xs) :: 'b :: preorder) \<le> f (findOrLast Q xs)"
  using assms
proof (induction xs)
  case Nil
  then show ?case by simp
next
  case (Cons x xs)
  show ?case
  proof (cases "xs = []")
    case True
    then show ?thesis by (simp add: findOrLast_Cons)
  next
    case False
    show ?thesis
    proof (cases "P x")
      case True
      have "findOrLast Q (x # xs) \<in> set (x # xs)"
        by (rule findOrLast_in_set) simp
      then have "f x \<le> f (findOrLast Q (x # xs))"
        using Cons.prems(1) by auto
      with True show ?thesis by (simp add: findOrLast_Cons)
    next
      case notP: False
      then have "\<not> Q x" using Cons.prems(3) by auto
      moreover have "f (findOrLast P xs) \<le> f (findOrLast Q xs)"
        using Cons.prems False by (intro Cons.IH) auto
      ultimately show ?thesis using notP False by (simp add: findOrLast_Cons)
    qed
  qed
qed

lemma SCALE_CANDIDATES_sorted:
  "sorted_wrt (\<lambda>a b. intervalSeconds a \<le> intervalSeconds b) SCALE_CANDIDATES"
  by (simp add: SCALE_CANDIDATES_def)

lemma SCALE_CANDIDATES_positive:
  "c \<in> set SCALE_CANDIDATES \<Longrightarrow> 0 < intervalSeconds c"
  by (auto simp: SCALE_CANDIDATES_def)

lemma candidateFits_antimono:
  assumes "d1 \<le> d2" "0 < intervalSeconds c" "candidateFits d2 c"
  shows "candidateFits d1 c"
proof (cases "d1 \<le> 0")
  case True
  then show ?thesis by (simp add: candidateFits_def)
next
  case False
  with assms(1) have "0 < d2" by simp
  with assms(3) have "d2 / intervalSeconds c \<le> TARGET_MARKER_COUNT"
    by (simp add: candidateFits_def)
  moreover have "d1 / intervalSeconds c \<le> d2 / intervalSeconds c"
    using assms(1,2) by (simp add: divide_right_mono)
  ultimately show ?thesis using False by (simp add: candidateFits_def)
qed

lemma intervalMs_calculateTimelineScale:
  "intervalMs (calculateTimelineScale d) = Math_round (intervalSeconds (selectedCandidate d) * 1000)"
  by (simp add: calculateTimelineScale_def Let_def)

lemma Math_round_mono: "x \<le> y \<Longrightarrow> Math_round x \<le> Math_round y"
  by (simp add: Math_round_def floor_mono)

text \<open>
  C5. For all durations \<open>d1 < d2\<close> (in seconds), the \<open>intervalMs\<close> that
  \<open>calculateTimelineScale\<close> selects for \<open>d2\<close> is at least the one it selects for \<open>d1\<close>.
\<close>

theorem calculateTimelineScale_intervalMs_mono:
  assumes "d1 < d2"
  shows "intervalMs (calculateTimelineScale d1) \<le> intervalMs (calculateTimelineScale d2)"
proof -
  have "intervalSeconds (selectedCandidate d1) \<le> intervalSeconds (selectedCandidate d2)"
    unfolding selectedCandidate_def
  proof (rule findOrLast_mono [OF SCALE_CANDIDATES_sorted])
    show "SCALE_CANDIDATES \<noteq> []" by (simp add: SCALE_CANDIDATES_def)
  next
    fix c assume "c \<in> set SCALE_CANDIDATES" "candidateFits d2 c"
    then show "candidateFits d1 c"
      using assms candidateFits_antimono [of d1 d2 c] SCALE_CANDIDATES_positive by simp
  qed
  then show ?thesis
    unfolding intervalMs_calculateTimelineScale by (intro Math_round_mono) simp
qed

lemma intervalMs_10s: "intervalMs (calculateTimelineScale 10) = 1000"
  by (simp add: intervalMs_calculateTimelineScale selectedCandidate_def findOrLast_def
        SCALE_CANDIDATES_def candidateFits_def TARGET_MARKER_COUNT_def Math_round_def Let_def)

lemma intervalMs_3600s: "intervalMs (calculateTimelineScale 3600) = 300000"
  by (simp add: intervalMs_calculateTimelineScale selectedCandidate_def findOrLast_def
        SCALE_CANDIDATES_def candidateFits_def TARGET_MARKER_COUNT_def Math_round_def Let_def)

theorem calculateTimelineScale_intervalMs_mono_witness:
  "(10::real) < 3600
   \<and> intervalMs (calculateTimelineScale 10) = 1000
   \<and> intervalMs (calculateTimelineScale 3600) = 300000
   \<and> intervalMs (calculateTimelineScale 10) \<le> intervalMs (calculateTimelineScale 3600)"
  using calculateTimelineScale_intervalMs_mono [of 10 3600] intervalMs_10s intervalMs_3600s
  by simp

subsection \<open>Axis markers\<close>

lemma Math_round_of_int [simp]: "Math_round (of_int n) = n"
  by (simp add: Math_round_def)

lemma Set_add_set [simp]: "set (Set_add x xs) = insert x (set xs)"
  by (auto simp: Set_add_def)

lemma Set_add_distinct [simp]: "distinct (Set_add x xs) = distinct xs"
  by (auto simp: Set_add_def)






text \<open>
  C8. For every visible range and \<open>videoDurationMs\<close>, if \<open>intervalMs \<le> 0\<close> the marker
  generator returns the empty list: the result is a value, so no quotient by
  \<open>intervalMs\<close> that would not be finite has been formed on the way.
\<close>

theorem markers_nonpositive_interval:
  assumes "ivMs \<le> 0"
  shows "markers ivMs visible videoDurationMs = Some []"
  using assms by (simp add: markers_def)

theorem markers_nonpositive_interval_witness:
  "(0::int) \<le> 0
   \<and> markers 0 \<lparr>start = 0, end' = 5000\<rparr> 10000 = Some []
   \<and> js_divide (max 0 (min (start \<lparr>start = 0, end' = 5000\<rparr>) 10000)) 0 = None"
  using markers_nonpositive_interval [of 0 "\<lparr>start = 0, end' = 5000\<rparr>" 10000]
  by (simp add: js_divide_def)

subsection \<open>Time labels\<close>
























































lemma formatTimeLabel_examples:
  "formatTimeLabel 0 1000 = ''0:00''" "formatTimeLabel 1 1000 = ''0:00''"
  "formatTimeLabel 599000 1000 = ''9:59''" "formatTimeLabel 600000 1000 = ''10:00''"
  "formatTimeLabel 0 500 = ''0:00.0''" "formatTimeLabel 1 500 = ''0:00.0''"
  "formatTimeLabel 0 100 = ''0:00.00''" "formatTimeLabel 1 100 = ''0:00.00''"
  "formatTimeLabel 3600000 1000 = ''1:00:00''" "formatTimeLabel 3600999 1000 = ''1:00:00''"
  by code_simp+



text \<open>
  The plain character-by-character order would not do: it puts \<open>10:00\<close> before \<open>9:59\<close>.
\<close>

lemma lexLess_minutes_width:
  "lexLess (formatTimeLabel 600000 1000) (formatTimeLabel 599000 1000)"
  using formatTimeLabel_examples by simp

end
